theory Spec2Isabelle
  imports
    Complex_Main
    "HOL-Library.Char_ord"
    "HOL-Library.List_Lexorder"
    "HOL-Library.Product_Lexorder"
    "HOL-Library.Option_ord"
begin

section \<open>Data model\<close>

text \<open>
  The four entities of the MovieLens store, with the attribute names the sources read
  (\<^verbatim>\<open>movie.movieId\<close>, \<^verbatim>\<open>rating.userId\<close>, \<^verbatim>\<open>tag.tag\<close>, \<^verbatim>\<open>link.imdbId\<close>, ...).
  Attributes that occur in several entities carry a one-letter prefix after the first
  entity, since record fields share one name space. Rating values are modelled as exact
  reals; the MovieLens values are multiples of one half.
\<close>

record Movie =
  movieId :: int
  title :: string
  genres :: string

record Rating =
  r_userId :: int
  r_movieId :: int
  rating :: real
  r_timestamp :: int

record Tag =
  t_userId :: int
  t_movieId :: int
  tag :: string
  t_timestamp :: int

record Link =
  l_movieId :: int
  imdbId :: string
  tmdbId :: "string option"

text \<open>
  The database session handed to every helper: the four tables, each a list of rows in
  primary-key order. No operation below writes to it.
\<close>

record Session =
  movies :: "Movie list"
  ratings :: "Rating list"
  tags :: "Tag list"
  links :: "Link list"

section \<open>The HTTP layer\<close>

datatype HTTPException = HTTPException (status_code: nat) (detail: string)

text \<open>Decimal rendering of an integer inside an f-string.\<close>

definition digit_char :: "nat \<Rightarrow> char" where
  "digit_char d = char_of (of_char CHR ''0'' + d)"

fun str_nat :: "nat \<Rightarrow> string" where
  "str_nat n = (if n < 10 then [digit_char n] else str_nat (n div 10) @ [digit_char (n mod 10)])"

definition str_int :: "int \<Rightarrow> string" where
  "str_int i = (if i < 0 then CHR ''-'' # str_nat (nat (- i)) else str_nat (nat i))"

text \<open>
  \<^verbatim>\<open>read_movie\<close> of \<^verbatim>\<open>api/main.py\<close>:
  \<^verbatim>\<open>
    movie = helpers.get_movie(db, movie_id)
    if movie is None:
        raise HTTPException(status_code=404, detail=f"Film avec l'ID {movie_id} non trouve")
    return movie
  \<close>
  The module \<^verbatim>\<open>query_helpers\<close> is not among the sources, so the lookup
  \<^verbatim>\<open>helpers.get_movie\<close> is the first argument. The raise is the \<open>Inl\<close> branch. The last
  letter of the message is an e with acute accent, two bytes in UTF-8.
\<close>

definition read_movie ::
  "('db \<Rightarrow> int \<Rightarrow> 'movie option) \<Rightarrow> int \<Rightarrow> 'db \<Rightarrow> HTTPException + 'movie" where
  "read_movie helpers_get_movie movie_id db =
     (case helpers_get_movie db movie_id of
        None \<Rightarrow>
          Inl (HTTPException 404
                (''Film avec l'ID '' @ str_int movie_id @ '' non trouv'' @ [CHR 0xC3, CHR 0xA9]))
      | Some movie \<Rightarrow> Inr movie)"

text \<open>
  \<^verbatim>\<open>get_popular_tags\<close> of \<^verbatim>\<open>test_main.py\<close>:
  \<^verbatim>\<open>
    popular_tags = qh.get_popular_tags(db, limit)
    return [{"tag": tag, "count": count} for tag, count in popular_tags]
  \<close>
  A response dictionary is an association list from keys to JSON scalars, in insertion
  order. The helper \<^verbatim>\<open>qh.get_popular_tags\<close> is the first argument.
\<close>

datatype json = JStr string | JInt int

type_synonym dict = "(string \<times> json) list"

definition get_popular_tags ::
  "('db \<Rightarrow> nat \<Rightarrow> (string \<times> nat) list) \<Rightarrow> nat \<Rightarrow> 'db \<Rightarrow> dict list" where
  "get_popular_tags qh_get_popular_tags limit db =
     (let popular_tags = qh_get_popular_tags db limit
      in map (\<lambda>(tag, count). [(''tag'', JStr tag), (''count'', JInt (int count))]) popular_tags)"

section \<open>Text matching\<close>

text \<open>
  Modelled from the spec: the module \<^verbatim>\<open>query_helpers\<close> (imported as \<^verbatim>\<open>helpers\<close> by
  \<^verbatim>\<open>api/main.py\<close> and as \<^verbatim>\<open>qh\<close> by \<^verbatim>\<open>test_main.py\<close>) is missing from the sources.
  Everything from here to the end of the definitions follows sections 3, 4 and 7 of the
  specification. Text filters are case-insensitive substring matches.
\<close>

definition lower_char :: "char \<Rightarrow> char" where
  "lower_char c =
     (if CHR ''A'' \<le> c \<and> c \<le> CHR ''Z'' then char_of (of_char c + (32::nat)) else c)"

definition lower :: "string \<Rightarrow> string" where
  "lower s = map lower_char s"

fun starts_with :: "string \<Rightarrow> string \<Rightarrow> bool" where
  "starts_with s [] = True"
| "starts_with [] (p # ps) = False"
| "starts_with (c # cs) (p # ps) = (c = p \<and> starts_with cs ps)"

fun contains :: "string \<Rightarrow> string \<Rightarrow> bool" where
  "contains [] sub = (sub = [])"
| "contains (c # cs) sub = (starts_with (c # cs) sub \<or> contains cs sub)"

text \<open>An optional text filter: absent is a no-op, present is a substring test ignoring case.\<close>

fun text_filter :: "string option \<Rightarrow> string \<Rightarrow> bool" where
  "text_filter None field = True"
| "text_filter (Some pat) field = contains (lower field) (lower pat)"

text \<open>An optional equality filter on an id, and an optional lower bound.\<close>

fun id_filter :: "int option \<Rightarrow> int \<Rightarrow> bool" where
  "id_filter None v = True"
| "id_filter (Some k) v = (v = k)"

fun min_filter :: "real option \<Rightarrow> real \<Rightarrow> bool" where
  "min_filter None v = True"
| "min_filter (Some lo) v = (lo \<le> v)"

text \<open>The genre list of a movie: the pieces of the pipe-delimited field, empty pieces dropped.\<close>

fun split_on :: "char \<Rightarrow> string \<Rightarrow> string list" where
  "split_on sep [] = [[]]"
| "split_on sep (c # cs) =
     (if c = sep then [] # split_on sep cs
      else (case split_on sep cs of
              [] \<Rightarrow> [[c]]
            | w # ws \<Rightarrow> (c # w) # ws))"

definition parse_genres :: "string \<Rightarrow> string list" where
  "parse_genres s = filter (\<lambda>g. g \<noteq> []) (split_on CHR ''|'' s)"

section \<open>Data access primitives and the filter and pagination engine\<close>

text \<open>
  Modelled from the spec (section 4.1 and 7): single-entity lookups by key; the
  not-found signal is \<open>None\<close>. The tag lookup compares the tag text ignoring case
  (section 4.2).
\<close>

definition helpers_get_movie :: "Session \<Rightarrow> int \<Rightarrow> Movie option" where
  "helpers_get_movie db movie_id = find (\<lambda>m. movieId m = movie_id) (movies db)"

definition helpers_get_rating :: "Session \<Rightarrow> int \<Rightarrow> int \<Rightarrow> Rating option" where
  "helpers_get_rating db user_id movie_id =
     find (\<lambda>r. r_userId r = user_id \<and> r_movieId r = movie_id) (ratings db)"

definition helpers_get_tag :: "Session \<Rightarrow> int \<Rightarrow> int \<Rightarrow> string \<Rightarrow> Tag option" where
  "helpers_get_tag db user_id movie_id tag_text =
     find (\<lambda>t. t_userId t = user_id \<and> t_movieId t = movie_id \<and> lower (tag t) = lower tag_text)
       (tags db)"

definition helpers_get_link :: "Session \<Rightarrow> int \<Rightarrow> Link option" where
  "helpers_get_link db movie_id = find (\<lambda>l. l_movieId l = movie_id) (links db)"

text \<open>
  Modelled from the spec (section 4.2): bulk scans. All present filters are combined
  with AND; \<open>skip\<close> then \<open>limit\<close> are applied last, on the rows in primary-key order.
\<close>

definition helpers_get_movies ::
  "Session \<Rightarrow> nat \<Rightarrow> nat \<Rightarrow> string option \<Rightarrow> string option \<Rightarrow> Movie list" where
  "helpers_get_movies db skip limit title_f genre_f =
     take limit (drop skip
       (filter (\<lambda>m. text_filter title_f (title m) \<and> text_filter genre_f (genres m)) (movies db)))"

definition helpers_get_ratings ::
  "Session \<Rightarrow> nat \<Rightarrow> nat \<Rightarrow> int option \<Rightarrow> int option \<Rightarrow> real option \<Rightarrow> Rating list" where
  "helpers_get_ratings db skip limit movie_id user_id min_rating =
     take limit (drop skip
       (filter (\<lambda>r. id_filter movie_id (r_movieId r) \<and> id_filter user_id (r_userId r) \<and>
                    min_filter min_rating (rating r)) (ratings db)))"

definition helpers_get_tags ::
  "Session \<Rightarrow> nat \<Rightarrow> nat \<Rightarrow> int option \<Rightarrow> int option \<Rightarrow> Tag list" where
  "helpers_get_tags db skip limit movie_id user_id =
     take limit (drop skip
       (filter (\<lambda>t. id_filter movie_id (t_movieId t) \<and> id_filter user_id (t_userId t)) (tags db)))"

definition helpers_get_links :: "Session \<Rightarrow> nat \<Rightarrow> nat \<Rightarrow> Link list" where
  "helpers_get_links db skip limit = take limit (drop skip (links db))"

section \<open>Aggregation engine\<close>

text \<open>
  Modelled from the spec (section 4.3): the rating count of a movie, and the arithmetic
  mean of its rating values, undefined (\<open>None\<close>) when it has none.
\<close>

definition movie_rating_values :: "Session \<Rightarrow> int \<Rightarrow> real list" where
  "movie_rating_values db movie_id =
     map rating (filter (\<lambda>r. r_movieId r = movie_id) (ratings db))"

definition qh_get_movie_rating_count :: "Session \<Rightarrow> int \<Rightarrow> nat" where
  "qh_get_movie_rating_count db movie_id = length (movie_rating_values db movie_id)"

definition qh_get_movie_average_rating :: "Session \<Rightarrow> int \<Rightarrow> real option" where
  "qh_get_movie_average_rating db movie_id =
     (let vs = movie_rating_values db movie_id
      in if vs = [] then None else Some (sum_list vs / real (length vs)))"

text \<open>
  Modelled from the spec (section 4.3): tag rows grouped by tag text as stored, counted,
  sorted by descending count and then ascending tag text, truncated to \<open>limit\<close>.
\<close>

definition tag_counts :: "Session \<Rightarrow> (string \<times> nat) list" where
  "tag_counts db =
     (let texts = map tag (tags db)
      in map (\<lambda>t. (t, count_list texts t)) (remdups texts))"

definition qh_get_popular_tags :: "Session \<Rightarrow> nat \<Rightarrow> (string \<times> nat) list" where
  "qh_get_popular_tags db limit =
     take limit (sort_key (\<lambda>(t, c). (- int c, t)) (tag_counts db))"

text \<open>
  Modelled from the spec (section 4.2): advanced search in two phases. Phase one filters
  the movies by title and genre; phase two joins each survivor with its aggregates and
  drops the rows that fail a numeric threshold. An undefined average fails a present
  \<open>min_rating\<close>.
\<close>

record MovieStats =
  movie :: Movie
  average_rating :: "real option"
  rating_count :: nat

fun meets_min_rating :: "real option \<Rightarrow> real option \<Rightarrow> bool" where
  "meets_min_rating None avg = True"
| "meets_min_rating (Some lo) None = False"
| "meets_min_rating (Some lo) (Some a) = (lo \<le> a)"

fun meets_min_count :: "nat option \<Rightarrow> nat \<Rightarrow> bool" where
  "meets_min_count None n = True"
| "meets_min_count (Some lo) n = (lo \<le> n)"

definition join_stats :: "Session \<Rightarrow> Movie \<Rightarrow> MovieStats" where
  "join_stats db m =
     \<lparr>movie = m,
      average_rating = qh_get_movie_average_rating db (movieId m),
      rating_count = qh_get_movie_rating_count db (movieId m)\<rparr>"

definition qh_search_movies ::
  "Session \<Rightarrow> string option \<Rightarrow> string option \<Rightarrow> real option \<Rightarrow> nat option \<Rightarrow> nat
     \<Rightarrow> MovieStats list" where
  "qh_search_movies db title_f genre_f min_rating min_rating_count limit =
     (let candidates =
            filter (\<lambda>m. text_filter title_f (title m) \<and> text_filter genre_f (genres m)) (movies db);
          joined = map (join_stats db) candidates;
          kept = filter (\<lambda>row. meets_min_rating min_rating (average_rating row) \<and>
                              meets_min_count min_rating_count (rating_count row)) joined
      in take limit kept)"

section \<open>Similarity and recommendation engine\<close>

text \<open>
  Modelled from the spec (section 4.4): the genre overlap score is the number of distinct
  genres two genre lists share. Similar movies are the other movies with a positive
  score, by descending score, then descending rating count, then ascending id.
\<close>

definition genre_overlap :: "string list \<Rightarrow> string list \<Rightarrow> nat" where
  "genre_overlap gs ref_gs = length (filter (\<lambda>g. g \<in> set ref_gs) (remdups gs))"

definition qh_get_similar_movies :: "Session \<Rightarrow> int \<Rightarrow> nat \<Rightarrow> Movie list" where
  "qh_get_similar_movies db movie_id limit =
     (case find (\<lambda>m. movieId m = movie_id) (movies db) of
        None \<Rightarrow> []
      | Some ref \<Rightarrow>
          (let ref_genres = parse_genres (genres ref);
               score = (\<lambda>m. genre_overlap (parse_genres (genres m)) ref_genres);
               others = filter (\<lambda>m. movieId m \<noteq> movie_id) (movies db);
               scored = filter (\<lambda>m. 0 < score m) others;
               ranked = sort_key (\<lambda>m. (- int (score m),
                                        - int (qh_get_movie_rating_count db (movieId m)),
                                        movieId m)) scored
           in take limit ranked))"

text \<open>
  Modelled from the spec (section 4.4): recommendations for a user. The liked ratings are
  the user's ratings of at least 4.0; the genres of the liked movies are counted and
  ranked by frequency; a movie the user has not rated scores the sum of the frequencies
  of its genres among the top genres. Ties go to the higher average rating (an undefined
  average last), then to the lower id. The spec does not say how many genres are the top
  ones: that number is the first argument.
\<close>

definition liked_ratings :: "Session \<Rightarrow> int \<Rightarrow> Rating list" where
  "liked_ratings db user_id =
     filter (\<lambda>r. r_userId r = user_id \<and> 4 \<le> rating r) (ratings db)"

definition liked_genres :: "Session \<Rightarrow> int \<Rightarrow> string list" where
  "liked_genres db user_id =
     concat (map (\<lambda>r. case find (\<lambda>m. movieId m = r_movieId r) (movies db) of
                          None \<Rightarrow> []
                        | Some m \<Rightarrow> parse_genres (genres m))
                 (liked_ratings db user_id))"

definition top_liked_genres :: "nat \<Rightarrow> Session \<Rightarrow> int \<Rightarrow> (string \<times> nat) list" where
  "top_liked_genres top_n db user_id =
     (let gs = liked_genres db user_id;
          freq = map (\<lambda>g. (g, count_list gs g)) (remdups gs)
      in take top_n (sort_key (\<lambda>(g, c). - int c) freq))"

definition genre_score :: "(string \<times> nat) list \<Rightarrow> Movie \<Rightarrow> nat" where
  "genre_score top_gs m =
     sum_list (map snd (filter (\<lambda>(g, c). g \<in> set (parse_genres (genres m))) top_gs))"

definition qh_get_user_recommendations :: "nat \<Rightarrow> Session \<Rightarrow> int \<Rightarrow> nat \<Rightarrow> Movie list" where
  "qh_get_user_recommendations top_n db user_id limit =
     (if liked_ratings db user_id = [] then []
      else
        (let top_gs = top_liked_genres top_n db user_id;
             rated = map r_movieId (filter (\<lambda>r. r_userId r = user_id) (ratings db));
             unrated = filter (\<lambda>m. movieId m \<notin> set rated) (movies db);
             ranked = rev (sort_key (\<lambda>m. (genre_score top_gs m,
                                           qh_get_movie_average_rating db (movieId m),
                                           - movieId m)) unrated)
         in take limit ranked))"

section \<open>An example store\<close>

text \<open>
  The scenario of the specification's section 8: movies A (Action and Comedy), B (Comedy)
  and C (Drama), movie 1 rated 3.0 and 5.0, and a few tags that differ in case only.
\<close>

definition example_db :: Session where
  "example_db =
     \<lparr>movies = [\<lparr>movieId = 1, title = ''A'', genres = ''Action|Comedy''\<rparr>,
                \<lparr>movieId = 2, title = ''B'', genres = ''Comedy''\<rparr>,
                \<lparr>movieId = 3, title = ''C'', genres = ''Drama''\<rparr>],
      ratings = [\<lparr>r_userId = 1, r_movieId = 1, rating = 3, r_timestamp = 0\<rparr>,
                 \<lparr>r_userId = 2, r_movieId = 1, rating = 5, r_timestamp = 0\<rparr>],
      tags = [\<lparr>t_userId = 1, t_movieId = 1, tag = ''Funny'', t_timestamp = 0\<rparr>,
              \<lparr>t_userId = 2, t_movieId = 1, tag = ''funny'', t_timestamp = 0\<rparr>,
              \<lparr>t_userId = 2, t_movieId = 2, tag = ''funny'', t_timestamp = 0\<rparr>,
              \<lparr>t_userId = 2, t_movieId = 2, tag = ''dark'', t_timestamp = 0\<rparr>],
      links = [\<lparr>l_movieId = 1, imdbId = ''0114709'', tmdbId = Some ''862''\<rparr>]\<rparr>"

section \<open>Auxiliary facts\<close>

lemma starts_with_iff: "starts_with s p \<longleftrightarrow> (\<exists>post. s = p @ post)"
  by (induction s p rule: starts_with.induct) auto

lemma contains_iff: "contains s sub \<longleftrightarrow> (\<exists>pre post. s = pre @ sub @ post)"
proof (induction s)
  case Nil
  then show ?case by auto
next
  case (Cons c cs)
  show ?case
  proof
    assume "contains (c # cs) sub"
    then consider "starts_with (c # cs) sub" | "contains cs sub" by auto
    then show "\<exists>pre post. c # cs = pre @ sub @ post"
    proof cases
      case 1
      then obtain post where "c # cs = sub @ post" by (auto simp: starts_with_iff)
      then have "c # cs = [] @ sub @ post" by simp
      then show ?thesis by blast
    next
      case 2
      then obtain pre post where "cs = pre @ sub @ post" using Cons.IH by blast
      then have "c # cs = (c # pre) @ sub @ post" by simp
      then show ?thesis by blast
    qed
  next
    assume "\<exists>pre post. c # cs = pre @ sub @ post"
    then obtain pre post where eq: "c # cs = pre @ sub @ post" by blast
    show "contains (c # cs) sub"
    proof (cases pre)
      case Nil
      with eq have "starts_with (c # cs) sub" by (auto simp: starts_with_iff)
      then show ?thesis by simp
    next
      case (Cons a pre')
      with eq have "cs = pre' @ sub @ post" by simp
      then have "contains cs sub" using Cons.IH by blast
      then show ?thesis by simp
    qed
  qed
qed

lemma text_filter_iff:
  "text_filter f field \<longleftrightarrow> (\<forall>p. f = Some p \<longrightarrow> (\<exists>pre post. lower field = pre @ lower p @ post))"
  by (cases f) (simp_all add: contains_iff)

lemma get_movies_full:
  "helpers_get_movies db 0 (length (movies db)) t g =
     filter (\<lambda>m. text_filter t (title m) \<and> text_filter g (genres m)) (movies db)"
  by (simp add: helpers_get_movies_def)

lemma get_movies_page:
  "helpers_get_movies db s l t g = take l (drop s (helpers_get_movies db 0 (length (movies db)) t g))"
  by (simp add: get_movies_full) (simp add: helpers_get_movies_def)

lemma find_None_ball: "find P xs = None \<longleftrightarrow> (\<forall>x\<in>set xs. \<not> P x)"
  by (auto simp: find_None_iff)

lemma page_of_no_match: "\<forall>x\<in>set xs. \<not> P x \<Longrightarrow> take l (drop s (filter P xs)) = []"
proof -
  assume "\<forall>x\<in>set xs. \<not> P x"
  then have "filter P xs = []" by (simp add: filter_empty_conv)
  then show ?thesis by simp
qed

lemma search_unfiltered:
  "qh_search_movies db t g None None (length (movies db)) =
     map (join_stats db)
       (filter (\<lambda>m. text_filter t (title m) \<and> text_filter g (genres m)) (movies db))"
  by (simp add: qh_search_movies_def)

section \<open>Endpoint handlers\<close>

text \<open>
  C9. For every movie id, \<open>read_movie\<close> raises an HTTP error exactly when the lookup
  returns \<open>None\<close>; the error it raises has status 404; and when the lookup returns a
  record, the handler returns that very record.
\<close>

theorem read_movie_404_iff_None:
  "(isl (read_movie h movie_id db) \<longleftrightarrow> h db movie_id = None) \<and>
   (\<forall>e. read_movie h movie_id db = Inl e \<longrightarrow> status_code e = 404 \<and> h db movie_id = None) \<and>
   (\<forall>m. h db movie_id = Some m \<longrightarrow> read_movie h movie_id db = Inr m)"
  by (auto simp: read_movie_def split: option.splits)

theorem read_movie_404_iff_None_witness:
  "read_movie (\<lambda>db i. if i = 1 then Some ''Toy Story (1995)'' else None) 1 () =
     Inr ''Toy Story (1995)'' \<and>
   isl (read_movie (\<lambda>db i. if i = 1 then Some ''Toy Story (1995)'' else None) 2 ())"
  using read_movie_404_iff_None
    [of "\<lambda>db i. if i = 1 then Some ''Toy Story (1995)'' else None" 1 "()"]
    read_movie_404_iff_None
    [of "\<lambda>db i. if i = 1 then Some ''Toy Story (1995)'' else None" 2 "()"]
  by simp

text \<open>
  C10. For every limit, the popular-tags handler returns one dictionary per pair of the
  helper's output, in the same order: the result has the helper's length, and its
  \<open>i\<close>-th entry is \<^verbatim>\<open>{"tag": tag, "count": count}\<close> for the helper's \<open>i\<close>-th pair.
\<close>

theorem get_popular_tags_maps_pairs:
  "length (get_popular_tags h limit db) = length (h db limit) \<and>
   (\<forall>i < length (h db limit).
      get_popular_tags h limit db ! i =
        [(''tag'', JStr (fst (h db limit ! i))), (''count'', JInt (int (snd (h db limit ! i))))])"
  by (simp add: get_popular_tags_def case_prod_beta)

theorem get_popular_tags_maps_pairs_witness:
  "get_popular_tags (\<lambda>db n. take n [(''funny'', 3), (''dark'', 2)]) 2 () =
     [[(''tag'', JStr ''funny''), (''count'', JInt 3)], [(''tag'', JStr ''dark''), (''count'', JInt 2)]]"
proof -
  let ?h = "\<lambda>(db::unit) n. take n [(''funny'', 3::nat), (''dark'', 2)]"
  have len: "length (get_popular_tags ?h 2 ()) = 2"
    using get_popular_tags_maps_pairs [of ?h 2 "()"] by simp
  have e0: "get_popular_tags ?h 2 () ! 0 = [(''tag'', JStr ''funny''), (''count'', JInt 3)]"
    using get_popular_tags_maps_pairs [of ?h 2 "()"] by simp
  have e1: "get_popular_tags ?h 2 () ! 1 = [(''tag'', JStr ''dark''), (''count'', JInt 2)]"
    using get_popular_tags_maps_pairs [of ?h 2 "()"] by simp
  show ?thesis
    by (rule nth_equalityI) (use len e0 e1 in \<open>auto simp: less_Suc_eq numeral_2_eq_2\<close>)
qed

end
